theory Spec2Isabelle
  imports Main "HOL-Library.AList"
begin

section \<open>JSON-like values\<close>

text \<open>
  The content the program handles is parsed YAML/JSON: TypeScript's
  \<^verbatim>\<open>Record<string, unknown>\<close>. An object is an association list in insertion
  order (the order of \<^verbatim>\<open>Object.keys\<close>); a well-formed object has distinct keys.
  Assigning \<^verbatim>\<open>result[key] = v\<close> is \<^const>\<open>AList.update\<close>: it replaces the value of
  an existing key in place and appends a new key at the end.
\<close>

datatype json =
    JNull
  | JBool bool
  | JNum int
  | JStr string
  | JArr "json list"
  | JObj "(string \<times> json) list"

type_synonym object = "(string \<times> json) list"

section \<open>Merge engine\<close>

datatype ArrayMergeStrategy = Replace | Append | Prepend

text \<open>
  Modelled from the spec: the module \<^verbatim>\<open>merge.js\<close> (\<^verbatim>\<open>createMergeContext\<close>,
  \<^verbatim>\<open>deepMerge\<close>, \<^verbatim>\<open>stripMergeDirectives\<close>) is imported by the normalizer but is not
  among the sources. The strategy context carries the ambient (document- or
  file-level) array strategy of section 4.2.
\<close>

record MergeContext =
  defaultArrayStrategy :: ArrayMergeStrategy

text \<open>
  Modelled from the spec: \<^verbatim>\<open>createMergeContext(strategy)\<close> of the missing
  \<^verbatim>\<open>merge.js\<close>; the normalizer passes it the default strategy.
\<close>

definition createMergeContext :: "ArrayMergeStrategy \<Rightarrow> MergeContext" where
  "createMergeContext s = \<lparr>defaultArrayStrategy = s\<rparr>"

text \<open>
  Modelled from the spec: the MergeDirective shape of section 3 (missing
  \<^verbatim>\<open>merge.js\<close>), \<^verbatim>\<open>{ $arrayMerge: "append"|"prepend", values: Sequence }\<close>. The result
  is the directive's strategy and its values when the object has that shape.
\<close>

definition asMergeDirective :: "object \<Rightarrow> (ArrayMergeStrategy \<times> json list) option" where
  "asMergeDirective obj =
     (case (map_of obj ''$arrayMerge'', map_of obj ''values'') of
        (Some (JStr s), Some (JArr vs)) \<Rightarrow>
          (if s = ''append'' then Some (Append, vs)
           else if s = ''prepend'' then Some (Prepend, vs)
           else None)
      | _ \<Rightarrow> None)"

text \<open>
  Modelled from the spec: array resolution of section 4.2 (missing \<^verbatim>\<open>merge.js\<close>):
  replace discards the base, append is base then values, prepend is values then
  base.
\<close>

fun mergeArrays :: "ArrayMergeStrategy \<Rightarrow> json list \<Rightarrow> json list \<Rightarrow> json list" where
  "mergeArrays Replace base vs = vs"
| "mergeArrays Append base vs = base @ vs"
| "mergeArrays Prepend base vs = vs @ base"

text \<open>
  Modelled from the spec: "\<^verbatim>\<open>base[k]\<close> (sequence, default empty)" of section 4.2
  (missing \<^verbatim>\<open>merge.js\<close>).
\<close>

fun baseSequence :: "json option \<Rightarrow> json list" where
  "baseSequence (Some (JArr xs)) = xs"
| "baseSequence _ = []"

text \<open>
  Modelled from the spec: \<^verbatim>\<open>deepMerge(base, overlay, strategyContext)\<close> of section 4.2
  (missing \<^verbatim>\<open>merge.js\<close>). \<open>mergeValue ctx (base[k]) (overlay[k])\<close> is the merged value
  at one key, \<open>mergeEntries\<close> is the loop over the overlay's keys, writing into a
  copy of the base. A MergeDirective is a variant of its own (section 9), so it is
  resolved before the test for two mappings; plain sequences follow the ambient
  strategy; everything else is replaced by the overlay's value.
\<close>

fun mergeValue :: "MergeContext \<Rightarrow> json option \<Rightarrow> json \<Rightarrow> json"
and mergeEntries :: "MergeContext \<Rightarrow> object \<Rightarrow> object \<Rightarrow> object \<Rightarrow> object"
where
  "mergeValue ctx b (JObj ov) =
     (case asMergeDirective ov of
        Some (s, vs) \<Rightarrow> JArr (mergeArrays s (baseSequence b) vs)
      | None \<Rightarrow>
          (case b of
             Some (JObj bv) \<Rightarrow> JObj (mergeEntries ctx bv ov bv)
           | _ \<Rightarrow> JObj ov))"
| "mergeValue ctx b (JArr vs) =
     (case b of
        Some (JArr bs) \<Rightarrow> JArr (mergeArrays (defaultArrayStrategy ctx) bs vs)
      | _ \<Rightarrow> JArr vs)"
| "mergeValue ctx b v = v"
| "mergeEntries ctx base [] acc = acc"
| "mergeEntries ctx base ((k, v) # rest) acc =
     mergeEntries ctx base rest (AList.update k (mergeValue ctx (map_of base k) v) acc)"

definition deepMerge :: "object \<Rightarrow> object \<Rightarrow> MergeContext \<Rightarrow> object" where
  "deepMerge base overlay ctx = mergeEntries ctx base overlay base"

text \<open>
  Modelled from the spec: \<^verbatim>\<open>stripMergeDirectives(value)\<close> of section 4.2 (missing
  \<^verbatim>\<open>merge.js\<close>): a recursive walk that replaces every MergeDirective shape by its
  values sequence and leaves all other structure untouched. The walk visits the
  children of a mapping before it tests the mapping itself, so that no directive
  shape is left in the result ("directive never leaks", section 8).
\<close>

fun stripMergeDirectives :: "json \<Rightarrow> json"
and stripItems :: "json list \<Rightarrow> json list"
and stripEntries :: "object \<Rightarrow> object"
where
  "stripMergeDirectives (JObj kvs) =
     (case asMergeDirective (stripEntries kvs) of
        Some (s, vs) \<Rightarrow> JArr vs
      | None \<Rightarrow> JObj (stripEntries kvs))"
| "stripMergeDirectives (JArr xs) = JArr (stripItems xs)"
| "stripMergeDirectives v = v"
| "stripItems [] = []"
| "stripItems (x # xs) = stripMergeDirectives x # stripItems xs"
| "stripEntries [] = []"
| "stripEntries ((k, v) # kvs) = (k, stripMergeDirectives v) # stripEntries kvs"

text \<open>
  The invariant of section 3, "resolved content never contains a MergeDirective
  shape", as an executable predicate.
\<close>

fun directiveFree :: "json \<Rightarrow> bool"
and directiveFreeItems :: "json list \<Rightarrow> bool"
and directiveFreeEntries :: "object \<Rightarrow> bool"
where
  "directiveFree (JObj kvs) = (asMergeDirective kvs = None \<and> directiveFreeEntries kvs)"
| "directiveFree (JArr xs) = directiveFreeItems xs"
| "directiveFree v = True"
| "directiveFreeItems [] = True"
| "directiveFreeItems (x # xs) = (directiveFree x \<and> directiveFreeItems xs)"
| "directiveFreeEntries [] = True"
| "directiveFreeEntries ((k, v) # kvs) = (directiveFree v \<and> directiveFreeEntries kvs)"

section \<open>Environment interpolation\<close>

text \<open>The process environment, read by name only.\<close>

type_synonym env = "string \<rightharpoonup> string"

datatype error = MissingEnvVar string | TypeError string

text \<open>
  Modelled from the spec: the module \<^verbatim>\<open>env.js\<close> (\<^verbatim>\<open>interpolateEnvVars\<close>) is
  imported by the normalizer but is not among the sources. The three recognised
  forms of section 4.3: \<^verbatim>\<open>${NAME}\<close>, \<^verbatim>\<open>${NAME:-default}\<close> and \<^verbatim>\<open>${NAME:?message}\<close>.
\<close>

datatype occurrence =
    Plain string
  | WithDefault string string
  | Required string string

datatype segment = Literal char | Occurrence occurrence

text \<open>
  Modelled from the spec: "name: letters/digits/underscore" (section 4.3, missing
  \<^verbatim>\<open>env.js\<close>).
\<close>

definition isNameChar :: "char \<Rightarrow> bool" where
  "isNameChar c \<longleftrightarrow>
     c \<in> set ''abcdefghijklmnopqrstuvwxyzABCDEFGHIJKLMNOPQRSTUVWXYZ0123456789_''"

fun stripPrefix :: "string \<Rightarrow> string \<Rightarrow> string option" where
  "stripPrefix [] s = Some s"
| "stripPrefix (p # ps) [] = None"
| "stripPrefix (p # ps) (c # cs) = (if p = c then stripPrefix ps cs else None)"

text \<open>The text of a modifier runs up to the closing brace of the occurrence.\<close>

definition untilBrace :: "string \<Rightarrow> (string \<times> string) option" where
  "untilBrace s =
     (case dropWhile (\<lambda>c. c \<noteq> CHR ''}'') s of
        [] \<Rightarrow> None
      | _ # rest \<Rightarrow> Some (takeWhile (\<lambda>c. c \<noteq> CHR ''}'') s, rest))"

text \<open>
  Modelled from the spec: recognition of one occurrence at the head of a string
  (section 4.3, missing \<^verbatim>\<open>env.js\<close>); the result is the occurrence and the text
  after its closing brace.
\<close>

definition matchOccurrence :: "string \<Rightarrow> (occurrence \<times> string) option" where
  "matchOccurrence s =
     (case stripPrefix ''${'' s of
        None \<Rightarrow> None
      | Some t \<Rightarrow>
          (let name = takeWhile isNameChar t; u = dropWhile isNameChar t in
           if name = [] then None
           else (case stripPrefix ''}'' u of
                   Some rest \<Rightarrow> Some (Plain name, rest)
                 | None \<Rightarrow>
                     (case stripPrefix '':-'' u of
                        Some w \<Rightarrow>
                          map_option (\<lambda>(d, rest). (WithDefault name d, rest)) (untilBrace w)
                      | None \<Rightarrow>
                          (case stripPrefix '':?'' u of
                             Some w \<Rightarrow>
                               map_option (\<lambda>(m, rest). (Required name m, rest)) (untilBrace w)
                           | None \<Rightarrow> None)))))"

text \<open>
  Modelled from the spec: the left-to-right scan of section 4.3 (missing
  \<^verbatim>\<open>env.js\<close>). A dollar sign that starts no recognised form is literal text.
\<close>

function segments :: "string \<Rightarrow> segment list" where
  "segments [] = []"
| "segments (c # cs) =
     (case matchOccurrence (c # cs) of
        Some (occ, rest) \<Rightarrow> Occurrence occ # segments rest
      | None \<Rightarrow> Literal c # segments cs)"
  by pat_completeness auto
termination
proof -
  have prefix: "length s = length p + length t" if "stripPrefix p s = Some t" for p s t
    using that by (induction p s rule: stripPrefix.induct) (auto split: if_splits)
  have brace: "length rest < length s" if "untilBrace s = Some (d, rest)" for s d rest
  proof -
    from that obtain c where "dropWhile (\<lambda>c. c \<noteq> CHR ''}'') s = c # rest"
      by (auto simp: untilBrace_def split: list.splits)
    moreover have "length (dropWhile (\<lambda>c. c \<noteq> CHR ''}'') s) \<le> length s"
      by (rule length_dropWhile_le)
    ultimately show ?thesis by simp
  qed
  have shorter: "length rest < length s" if m: "matchOccurrence s = Some (occ, rest)"
    for s occ rest
  proof -
    from m obtain t where t: "stripPrefix ''${'' s = Some t"
      by (auto simp: matchOccurrence_def split: option.splits)
    then have ls: "length s = 2 + length t"
      by (simp add: prefix)
    let ?u = "dropWhile isNameChar t"
    have lu: "length ?u \<le> length t"
      by (rule length_dropWhile_le)
    from m t have "stripPrefix ''}'' ?u = Some rest
        \<or> (\<exists>w d. stripPrefix '':-'' ?u = Some w \<and> untilBrace w = Some (d, rest))
        \<or> (\<exists>w d. stripPrefix '':?'' ?u = Some w \<and> untilBrace w = Some (d, rest))"
      by (auto simp: matchOccurrence_def Let_def split: option.splits if_splits)
    then show ?thesis
      using ls lu by (auto dest!: prefix brace)
  qed
  show ?thesis
    by (relation "measure length") (auto dest: shorter)
qed

text \<open>
  Modelled from the spec: resolution per occurrence (section 4.3, missing
  \<^verbatim>\<open>env.js\<close>). The message of a required variable combines the variable name and
  the supplied message as the tests of \<^verbatim>\<open>interpolateEnvVars\<close> expect it
  (\<^verbatim>\<open>MISSING_VAR: Variable is required\<close>).
\<close>

fun resolve :: "env \<Rightarrow> bool \<Rightarrow> occurrence \<Rightarrow> error + string" where
  "resolve e strict (Plain name) =
     (case e name of
        Some v \<Rightarrow> Inr v
      | None \<Rightarrow>
          if strict
          then Inl (MissingEnvVar (''Missing required environment variable: '' @ name))
          else Inr (''${'' @ name @ ''}''))"
| "resolve e strict (WithDefault name d) =
     (case e name of Some v \<Rightarrow> Inr v | None \<Rightarrow> Inr d)"
| "resolve e strict (Required name msg) =
     (case e name of
        Some v \<Rightarrow> Inr v
      | None \<Rightarrow> Inl (MissingEnvVar (name @ '': '' @ msg)))"

text \<open>
  Modelled from the spec: "the final string is the concatenation of literal
  segments and substituted values" (section 4.3, missing \<^verbatim>\<open>env.js\<close>); the leftmost
  failing occurrence aborts the call.
\<close>

fun substitute :: "env \<Rightarrow> bool \<Rightarrow> segment list \<Rightarrow> error + string" where
  "substitute e strict [] = Inr []"
| "substitute e strict (Literal c # segs) =
     (case substitute e strict segs of
        Inl err \<Rightarrow> Inl err
      | Inr r \<Rightarrow> Inr (c # r))"
| "substitute e strict (Occurrence occ # segs) =
     (case resolve e strict occ of
        Inl err \<Rightarrow> Inl err
      | Inr v \<Rightarrow>
          (case substitute e strict segs of
             Inl err \<Rightarrow> Inl err
           | Inr r \<Rightarrow> Inr (v @ r)))"

definition interpolateString :: "env \<Rightarrow> bool \<Rightarrow> string \<Rightarrow> error + string" where
  "interpolateString e strict s = substitute e strict (segments s)"

text \<open>
  Modelled from the spec: \<^verbatim>\<open>interpolate(value, { strict })\<close> of section 4.3 (missing
  \<^verbatim>\<open>env.js\<close>): mappings and sequences are visited recursively, strings are
  rewritten, other scalars are left untouched.
\<close>

fun interpolate :: "env \<Rightarrow> bool \<Rightarrow> json \<Rightarrow> error + json"
and interpolateItems :: "env \<Rightarrow> bool \<Rightarrow> json list \<Rightarrow> error + json list"
and interpolateEntries :: "env \<Rightarrow> bool \<Rightarrow> object \<Rightarrow> error + object"
where
  "interpolate e strict (JStr s) =
     (case interpolateString e strict s of Inl err \<Rightarrow> Inl err | Inr r \<Rightarrow> Inr (JStr r))"
| "interpolate e strict (JArr xs) =
     (case interpolateItems e strict xs of Inl err \<Rightarrow> Inl err | Inr r \<Rightarrow> Inr (JArr r))"
| "interpolate e strict (JObj kvs) =
     (case interpolateEntries e strict kvs of Inl err \<Rightarrow> Inl err | Inr r \<Rightarrow> Inr (JObj r))"
| "interpolate e strict v = Inr v"
| "interpolateItems e strict [] = Inr []"
| "interpolateItems e strict (x # xs) =
     (case interpolate e strict x of
        Inl err \<Rightarrow> Inl err
      | Inr y \<Rightarrow>
          (case interpolateItems e strict xs of
             Inl err \<Rightarrow> Inl err
           | Inr ys \<Rightarrow> Inr (y # ys)))"
| "interpolateEntries e strict [] = Inr []"
| "interpolateEntries e strict ((k, v) # kvs) =
     (case interpolate e strict v of
        Inl err \<Rightarrow> Inl err
      | Inr y \<Rightarrow>
          (case interpolateEntries e strict kvs of
             Inl err \<Rightarrow> Inl err
           | Inr ys \<Rightarrow> Inr ((k, y) # ys)))"

record EnvInterpolationOptions =
  strict :: bool

text \<open>
  Modelled from the spec: the entry point \<^verbatim>\<open>interpolateEnvVars(value, options)\<close> of
  the missing \<^verbatim>\<open>env.js\<close>, with the contract \<^verbatim>\<open>interpolate(value, { strict })\<close> of
  section 4.3. Both normalizers pass \<^verbatim>\<open>{ strict: true }\<close>; what a call without
  options does is not specified and is not modelled.
\<close>

definition interpolateEnvVars ::
  "env \<Rightarrow> json \<Rightarrow> EnvInterpolationOptions \<Rightarrow> error + json" where
  "interpolateEnvVars e v options = interpolate e (strict options) v"

section \<open>The normalizer (config-normalizer: \<^verbatim>\<open>normalizeConfig\<close> over a map of files)\<close>

text \<open>
  The types \<^verbatim>\<open>RawConfig\<close>, \<^verbatim>\<open>Config\<close>, \<^verbatim>\<open>RepoConfig\<close> and \<^verbatim>\<open>FileContent\<close> that this
  \<^verbatim>\<open>normalizeConfig\<close> imports are not among the sources; the records follow the
  fields the function reads and writes. An optional field is an \<open>option\<close>, \<open>None\<close>
  being \<^verbatim>\<open>undefined\<close>. The fields of the raw document carry a prefix, the fields of
  the output keep the source's names.
\<close>

datatype GitField = GitUrl string | GitUrls "string list"

record RawFileConfig =
  fileContent :: "object option"
  fileMergeStrategy :: "ArrayMergeStrategy option"
  fileCreateOnly :: "bool option"

record RawRepoFileOverride =
  override :: "bool option"
  overrideContent :: "object option"
  overrideCreateOnly :: "bool option"

text \<open>A repo-level entry for a file name is \<^verbatim>\<open>false\<close> (exclusion) or an override object.\<close>

datatype RepoFileEntry = Excluded | Entry RawRepoFileOverride

record RawRepoConfig =
  rawGit :: GitField
  rawRepoFiles :: "(string \<times> RepoFileEntry) list option"

text \<open>
  \<open>rawMergeStrategy\<close> is the optional document-level \<^verbatim>\<open>mergeStrategy\<close> of the input
  schema (section 6 of the spec). \<^verbatim>\<open>normalizeConfig\<close> never reads it.
\<close>

record RawConfig =
  rawFiles :: "(string \<times> RawFileConfig) list"
  rawMergeStrategy :: "ArrayMergeStrategy option"
  rawRepos :: "RawRepoConfig list"

record FileContent =
  fileName :: string
  content :: json
  createOnly :: "bool option"

record RepoConfig =
  git :: string
  files :: "FileContent list"

record Config =
  repos :: "RepoConfig list"

text \<open>\<^verbatim>\<open>Array.isArray(rawRepo.git) ? rawRepo.git : [rawRepo.git]\<close>\<close>

fun gitUrls :: "GitField \<Rightarrow> string list" where
  "gitUrls (GitUrls urls) = urls"
| "gitUrls (GitUrl url) = [url]"

text \<open>\<^verbatim>\<open>rawRepo.files?.[fileName]\<close>\<close>

definition repoOverride :: "RawRepoConfig \<Rightarrow> string \<Rightarrow> RepoFileEntry option" where
  "repoOverride rawRepo name =
     (case rawRepoFiles rawRepo of None \<Rightarrow> None | Some fs \<Rightarrow> map_of fs name)"

text \<open>
  Steps 3 and 4 of the loop body for one file that is not excluded:
  \<open>ov\<close> is the override object, if any. \<^verbatim>\<open>structuredClone\<close> is the identity on
  values. In override mode without content the source hands \<^verbatim>\<open>undefined\<close> to
  \<^verbatim>\<open>stripMergeDirectives\<close>, outside the values that function is specified on: the
  model raises a \<open>TypeError\<close> there (a validated document never reaches it).
\<close>

definition mergedContent ::
  "env \<Rightarrow> RawFileConfig \<Rightarrow> RawRepoFileOverride option \<Rightarrow> error + json" where
  "mergedContent e fileConfig ov =
     (let baseContent = (case fileContent fileConfig of None \<Rightarrow> [] | Some c \<Rightarrow> c);
          fileStrategy = (case fileMergeStrategy fileConfig of None \<Rightarrow> Replace | Some s \<Rightarrow> s)
      in
        if (case ov of None \<Rightarrow> False | Some r \<Rightarrow> override r = Some True) then
          (case (case ov of None \<Rightarrow> None | Some r \<Rightarrow> overrideContent r) of
             None \<Rightarrow> Inl (TypeError ''override without content'')
           | Some c \<Rightarrow> interpolateEnvVars e (stripMergeDirectives (JObj c)) \<lparr>strict = True\<rparr>)
        else
          (case (case ov of None \<Rightarrow> None | Some r \<Rightarrow> overrideContent r) of
             None \<Rightarrow> interpolateEnvVars e (JObj baseContent) \<lparr>strict = True\<rparr>
           | Some c \<Rightarrow>
               interpolateEnvVars e
                 (stripMergeDirectives
                    (JObj (deepMerge baseContent c (createMergeContext fileStrategy))))
                 \<lparr>strict = True\<rparr>))"

text \<open>
  The body of the loop over the file names: \<open>Inr None\<close> is \<^verbatim>\<open>continue\<close> (the file is
  excluded for this repo), \<open>Inr (Some f)\<close> is the entry pushed onto \<^verbatim>\<open>files\<close>.
\<close>

definition processFile ::
  "env \<Rightarrow> RawConfig \<Rightarrow> RawRepoConfig \<Rightarrow> string \<Rightarrow> error + FileContent option" where
  "processFile e raw rawRepo name =
     (case repoOverride rawRepo name of
        Some Excluded \<Rightarrow> Inr None
      | entry \<Rightarrow>
          (case map_of (rawFiles raw) name of
             None \<Rightarrow> Inl (TypeError ''no such file'')
           | Some fileConfig \<Rightarrow>
               (let ov = (case entry of Some (Entry r) \<Rightarrow> Some r | _ \<Rightarrow> None) in
                case mergedContent e fileConfig ov of
                  Inl err \<Rightarrow> Inl err
                | Inr c \<Rightarrow>
                    Inr (Some \<lparr>fileName = name, content = c,
                               createOnly =
                                 (case (case ov of None \<Rightarrow> None | Some r \<Rightarrow> overrideCreateOnly r) of
                                    Some b \<Rightarrow> Some b
                                  | None \<Rightarrow> fileCreateOnly fileConfig)\<rparr>))))"

fun processFiles ::
  "env \<Rightarrow> RawConfig \<Rightarrow> RawRepoConfig \<Rightarrow> string list \<Rightarrow> error + FileContent list" where
  "processFiles e raw rawRepo [] = Inr []"
| "processFiles e raw rawRepo (name # names) =
     (case processFile e raw rawRepo name of
        Inl err \<Rightarrow> Inl err
      | Inr None \<Rightarrow> processFiles e raw rawRepo names
      | Inr (Some f) \<Rightarrow>
          (case processFiles e raw rawRepo names of
             Inl err \<Rightarrow> Inl err
           | Inr fs \<Rightarrow> Inr (f # fs)))"

text \<open>The loop over the git URLs of one raw repo entry.\<close>

fun expandGitUrls ::
  "env \<Rightarrow> RawConfig \<Rightarrow> RawRepoConfig \<Rightarrow> string list \<Rightarrow> error + RepoConfig list" where
  "expandGitUrls e raw rawRepo [] = Inr []"
| "expandGitUrls e raw rawRepo (gitUrl # urls) =
     (case processFiles e raw rawRepo (map fst (rawFiles raw)) of
        Inl err \<Rightarrow> Inl err
      | Inr fs \<Rightarrow>
          (case expandGitUrls e raw rawRepo urls of
             Inl err \<Rightarrow> Inl err
           | Inr rs \<Rightarrow> Inr (\<lparr>git = gitUrl, files = fs\<rparr> # rs)))"

text \<open>The loop over the raw repo entries.\<close>

fun expandRepos :: "env \<Rightarrow> RawConfig \<Rightarrow> RawRepoConfig list \<Rightarrow> error + RepoConfig list" where
  "expandRepos e raw [] = Inr []"
| "expandRepos e raw (rawRepo # rest) =
     (case expandGitUrls e raw rawRepo (gitUrls (rawGit rawRepo)) of
        Inl err \<Rightarrow> Inl err
      | Inr rs \<Rightarrow>
          (case expandRepos e raw rest of
             Inl err \<Rightarrow> Inl err
           | Inr others \<Rightarrow> Inr (rs @ others)))"

definition normalizeConfig :: "env \<Rightarrow> RawConfig \<Rightarrow> error + Config" where
  "normalizeConfig e raw =
     (case expandRepos e raw (rawRepos raw) of
        Inl err \<Rightarrow> Inl err
      | Inr rs \<Rightarrow> Inr \<lparr>repos = rs\<rparr>)"

section \<open>The single-file configuration (\<^verbatim>\<open>config.ts\<close>)\<close>

text \<open>
  \<^verbatim>\<open>config.ts\<close> declares its own \<^verbatim>\<open>RawRepoConfig\<close>, \<^verbatim>\<open>RawConfig\<close>, \<^verbatim>\<open>RepoConfig\<close> and
  \<^verbatim>\<open>Config\<close> (one target file, content under \<^verbatim>\<open>json\<close>) and its own
  \<^verbatim>\<open>normalizeConfig\<close>; they carry the prefix \<open>config_\<close> here. \<^verbatim>\<open>validateRawConfig\<close>
  checks a document as parsed, so every field it tests can be absent: \<open>None\<close> is
  \<^verbatim>\<open>undefined\<close>; for \<^verbatim>\<open>repos\<close> it is also a value that is not an array.
\<close>

record config_RawRepoConfig =
  cGit :: "GitField option"
  cJson :: "object option"
  cOverride :: "bool option"

record config_RawConfig =
  cFileName :: "string option"
  cRootJson :: "object option"
  cMergeStrategy :: "ArrayMergeStrategy option"
  cRepos :: "config_RawRepoConfig list option"

record config_RepoConfig =
  oGit :: "string option"
  oJson :: json

record config_Config =
  oFileName :: "string option"
  oRepos :: "config_RepoConfig list"

text \<open>The errors \<^verbatim>\<open>validateRawConfig\<close> throws, one constructor per message.\<close>

datatype ValidationError =
    MissingFileName
  | MissingRepos
  | MissingGit nat
  | MissingJson nat
  | OverrideWithoutJson string

text \<open>\<^verbatim>\<open>git[0] || 'unknown'\<close> for an array, the string itself otherwise.\<close>

fun getGitDisplayName :: "GitField \<Rightarrow> string" where
  "getGitDisplayName (GitUrls []) = ''unknown''"
| "getGitDisplayName (GitUrls (url # urls)) = (if url = [] then ''unknown'' else url)"
| "getGitDisplayName (GitUrl url) = url"

text \<open>
  The loop of \<^verbatim>\<open>validateRawConfig\<close> from index \<open>i\<close> on. \<^verbatim>\<open>!repo.git\<close> holds for a
  missing field and for the empty string; an array, even an empty one, is truthy.
\<close>

fun validateRepos :: "bool \<Rightarrow> nat \<Rightarrow> config_RawRepoConfig list \<Rightarrow> ValidationError + unit" where
  "validateRepos hasRootJson i [] = Inr ()"
| "validateRepos hasRootJson i (repo # rest) =
     (case cGit repo of
        None \<Rightarrow> Inl (MissingGit i)
      | Some g \<Rightarrow>
          if g = GitUrl [] then Inl (MissingGit i)
          else if \<not> hasRootJson \<and> cJson repo = None then Inl (MissingJson i)
          else if cOverride repo = Some True \<and> cJson repo = None
            then Inl (OverrideWithoutJson (getGitDisplayName g))
          else validateRepos hasRootJson (Suc i) rest)"

definition validateRawConfig :: "config_RawConfig \<Rightarrow> ValidationError + unit" where
  "validateRawConfig config =
     (if cFileName config = None \<or> cFileName config = Some [] then Inl MissingFileName
      else (case cRepos config of
              None \<Rightarrow> Inl MissingRepos
            | Some rs \<Rightarrow> validateRepos (cRootJson config \<noteq> None) 0 rs))"

text \<open>\<^verbatim>\<open>Array.isArray(rawRepo.git) ? rawRepo.git : [rawRepo.git]\<close>\<close>

fun config_gitUrls :: "GitField option \<Rightarrow> string option list" where
  "config_gitUrls (Some (GitUrls urls)) = map Some urls"
| "config_gitUrls (Some (GitUrl url)) = [Some url]"
| "config_gitUrls None = [None]"

text \<open>
  Steps 2 and 3 of the loop body. As in the normalizer over files, override mode
  without \<^verbatim>\<open>json\<close> hands \<^verbatim>\<open>undefined\<close> to \<^verbatim>\<open>stripMergeDirectives\<close> and is a
  \<open>TypeError\<close> in the model; \<^verbatim>\<open>validateRawConfig\<close> rejects such a document.
\<close>

definition config_mergedJson ::
  "env \<Rightarrow> config_RawConfig \<Rightarrow> config_RawRepoConfig \<Rightarrow> error + json" where
  "config_mergedJson e raw rawRepo =
     (let baseJson = (case cRootJson raw of None \<Rightarrow> [] | Some j \<Rightarrow> j);
          defaultStrategy = (case cMergeStrategy raw of None \<Rightarrow> Replace | Some s \<Rightarrow> s)
      in
        if cOverride rawRepo = Some True then
          (case cJson rawRepo of
             None \<Rightarrow> Inl (TypeError ''override without json'')
           | Some j \<Rightarrow> interpolateEnvVars e (stripMergeDirectives (JObj j)) \<lparr>strict = True\<rparr>)
        else
          (case cJson rawRepo of
             None \<Rightarrow> interpolateEnvVars e (JObj baseJson) \<lparr>strict = True\<rparr>
           | Some j \<Rightarrow>
               interpolateEnvVars e
                 (stripMergeDirectives
                    (JObj (deepMerge baseJson j (createMergeContext defaultStrategy))))
                 \<lparr>strict = True\<rparr>))"

fun config_expandGitUrls ::
  "env \<Rightarrow> config_RawConfig \<Rightarrow> config_RawRepoConfig \<Rightarrow> string option list
     \<Rightarrow> error + config_RepoConfig list" where
  "config_expandGitUrls e raw rawRepo [] = Inr []"
| "config_expandGitUrls e raw rawRepo (gitUrl # urls) =
     (case config_mergedJson e raw rawRepo of
        Inl err \<Rightarrow> Inl err
      | Inr j \<Rightarrow>
          (case config_expandGitUrls e raw rawRepo urls of
             Inl err \<Rightarrow> Inl err
           | Inr rs \<Rightarrow> Inr (\<lparr>oGit = gitUrl, oJson = j\<rparr> # rs)))"

fun config_expandRepos ::
  "env \<Rightarrow> config_RawConfig \<Rightarrow> config_RawRepoConfig list \<Rightarrow> error + config_RepoConfig list" where
  "config_expandRepos e raw [] = Inr []"
| "config_expandRepos e raw (rawRepo # rest) =
     (case config_expandGitUrls e raw rawRepo (config_gitUrls (cGit rawRepo)) of
        Inl err \<Rightarrow> Inl err
      | Inr rs \<Rightarrow>
          (case config_expandRepos e raw rest of
             Inl err \<Rightarrow> Inl err
           | Inr others \<Rightarrow> Inr (rs @ others)))"

text \<open>Iterating over a missing \<^verbatim>\<open>repos\<close> is a \<open>TypeError\<close>.\<close>

definition config_normalizeConfig :: "env \<Rightarrow> config_RawConfig \<Rightarrow> error + config_Config" where
  "config_normalizeConfig e raw =
     (case cRepos raw of
        None \<Rightarrow> Inl (TypeError ''repos is not iterable'')
      | Some rs \<Rightarrow>
          (case config_expandRepos e raw rs of
             Inl err \<Rightarrow> Inl err
           | Inr out \<Rightarrow> Inr \<lparr>oFileName = cFileName raw, oRepos = out\<rparr>))"

section \<open>Vocabulary of the properties\<close>







text \<open>An overlay value that is a MergeDirective.\<close>

fun isMergeDirective :: "json \<Rightarrow> bool" where
  "isMergeDirective (JObj kvs) = (asMergeDirective kvs \<noteq> None)"
| "isMergeDirective v = False"

text \<open>A base and an overlay with a directive of each kind and a plain sequence.\<close>

definition exBase :: object where
  "exBase = [(''a'', JArr [JNum 1, JNum 2]), (''b'', JArr [JNum 1, JNum 2]), (''c'', JArr [JNum 1, JNum 2])]"

definition exOverlay :: object where
  "exOverlay =
     [(''a'', JObj [(''$arrayMerge'', JStr ''append''), (''values'', JArr [JNum 3])]),
      (''b'', JObj [(''$arrayMerge'', JStr ''prepend''), (''values'', JArr [JNum 3])]),
      (''c'', JArr [JNum 3]),
      (''d'', JObj [(''$arrayMerge'', JStr ''append''), (''values'', JArr [JNum 3])])]"

text \<open>
  A repo entry "has a git field": \<^verbatim>\<open>repo.git\<close> is truthy, so it is present and not the
  empty string. \<open>repoPasses\<close> collects the three checks of the loop body of
  \<^verbatim>\<open>validateRawConfig\<close>.
\<close>

definition gitGiven :: "GitField option \<Rightarrow> bool" where
  "gitGiven g \<longleftrightarrow> g \<noteq> None \<and> g \<noteq> Some (GitUrl [])"

definition repoPasses :: "bool \<Rightarrow> config_RawRepoConfig \<Rightarrow> bool" where
  "repoPasses hasRootJson repo \<longleftrightarrow>
     gitGiven (cGit repo)
     \<and> (hasRootJson \<or> cJson repo \<noteq> None)
     \<and> \<not> (cOverride repo = Some True \<and> cJson repo = None)"

text \<open>Documents in the shape of the validator's tests: a root content and repo entries.\<close>

definition exRepo :: "string \<Rightarrow> config_RawRepoConfig" where
  "exRepo url = \<lparr>cGit = Some (GitUrl url), cJson = None, cOverride = None\<rparr>"

definition exConfig :: "string \<Rightarrow> config_RawRepoConfig list \<Rightarrow> config_RawConfig" where
  "exConfig name rs =
     \<lparr>cFileName = Some name, cRootJson = Some [(''key'', JStr ''value'')],
      cMergeStrategy = None, cRepos = Some rs\<rparr>"

text \<open>
  The parts of a raw document the normalizers read for one file: the override
  object of a repo for a file name (none when the entry is absent or \<^verbatim>\<open>false\<close>),
  \<^verbatim>\<open>fileConfig.content ?? {}\<close>, \<^verbatim>\<open>fileConfig.mergeStrategy ?? "replace"\<close>, and for
  \<^verbatim>\<open>config.ts\<close> \<^verbatim>\<open>raw.json ?? {}\<close> and \<^verbatim>\<open>raw.mergeStrategy ?? 'replace'\<close>.
\<close>

definition overrideOf :: "RawRepoConfig \<Rightarrow> string \<Rightarrow> RawRepoFileOverride option" where
  "overrideOf rawRepo name =
     (case repoOverride rawRepo name of Some (Entry r) \<Rightarrow> Some r | _ \<Rightarrow> None)"

definition baseContentOf :: "RawFileConfig \<Rightarrow> object" where
  "baseContentOf fileConfig = (case fileContent fileConfig of None \<Rightarrow> [] | Some c \<Rightarrow> c)"

definition fileStrategyOf :: "RawFileConfig \<Rightarrow> ArrayMergeStrategy" where
  "fileStrategyOf fileConfig =
     (case fileMergeStrategy fileConfig of None \<Rightarrow> Replace | Some s \<Rightarrow> s)"

definition rootJsonOf :: "config_RawConfig \<Rightarrow> object" where
  "rootJsonOf raw = (case cRootJson raw of None \<Rightarrow> [] | Some j \<Rightarrow> j)"

definition defaultStrategyOf :: "config_RawConfig \<Rightarrow> ArrayMergeStrategy" where
  "defaultStrategyOf raw = (case cMergeStrategy raw of None \<Rightarrow> Replace | Some s \<Rightarrow> s)"

text \<open>
  Example documents: one file \<^verbatim>\<open>config.json\<close>, one repo that inherits the base
  content or carries an override entry, and the normalized output for them.
\<close>

definition exFile :: "object \<Rightarrow> ArrayMergeStrategy option \<Rightarrow> bool option \<Rightarrow> RawFileConfig" where
  "exFile c s b = \<lparr>fileContent = Some c, fileMergeStrategy = s, fileCreateOnly = b\<rparr>"

definition exDoc :: "RawFileConfig \<Rightarrow> ArrayMergeStrategy option \<Rightarrow> RawRepoConfig list \<Rightarrow> RawConfig" where
  "exDoc file d rs = \<lparr>rawFiles = [(''config.json'', file)], rawMergeStrategy = d, rawRepos = rs\<rparr>"

definition inheritRepo :: RawRepoConfig where
  "inheritRepo = \<lparr>rawGit = GitUrl ''git@github.com:org/repo.git'', rawRepoFiles = None\<rparr>"

definition entryRepo :: "RawRepoFileOverride \<Rightarrow> RawRepoConfig" where
  "entryRepo r =
     \<lparr>rawGit = GitUrl ''git@github.com:org/repo.git'',
      rawRepoFiles = Some [(''config.json'', Entry r)]\<rparr>"

definition directiveItems :: object where
  "directiveItems =
     [(''items'', JObj [(''$arrayMerge'', JStr ''append''), (''values'', JArr [JStr ''b''])])]"

definition itemsAB :: object where
  "itemsAB = [(''items'', JArr [JStr ''a'', JStr ''b''])]"

definition itemsCD :: object where
  "itemsCD = [(''items'', JArr [JStr ''c'', JStr ''d''])]"

definition mergeEntry :: RawRepoFileOverride where
  "mergeEntry = \<lparr>override = None, overrideContent = Some itemsCD, overrideCreateOnly = Some False\<rparr>"

definition outFile :: "json \<Rightarrow> bool option \<Rightarrow> FileContent" where
  "outFile c b = \<lparr>fileName = ''config.json'', content = c, createOnly = b\<rparr>"

definition outRepo :: "FileContent \<Rightarrow> RepoConfig" where
  "outRepo f = \<lparr>git = ''git@github.com:org/repo.git'', files = [f]\<rparr>"

definition itemsABCD :: object where
  "itemsABCD = [(''items'', JArr [JStr ''a'', JStr ''b'', JStr ''c'', JStr ''d''])]"

definition exSingle :: "object \<Rightarrow> ArrayMergeStrategy option \<Rightarrow> object option \<Rightarrow> config_RawConfig" where
  "exSingle root d j =
     \<lparr>cFileName = Some ''config.json'', cRootJson = Some root, cMergeStrategy = d,
      cRepos = Some [\<lparr>cGit = Some (GitUrl ''git@github.com:org/repo.git''), cJson = j,
                      cOverride = None\<rparr>]\<rparr>"

definition createOnlyEntry :: "bool option \<Rightarrow> RawRepoFileOverride" where
  "createOnlyEntry b = \<lparr>override = None, overrideContent = None, overrideCreateOnly = b\<rparr>"

section \<open>Properties\<close>

subsection \<open>The scan of the interpolator\<close>














subsection \<open>Claims about the interpolator\<close>





subsection \<open>The merge loop\<close>

lemma mergeEntries_lookup:
  assumes "distinct (map fst overlay)"
  shows "map_of (mergeEntries ctx base overlay acc) k =
     (case map_of overlay k of
        Some v \<Rightarrow> Some (mergeValue ctx (map_of base k) v)
      | None \<Rightarrow> map_of acc k)"
  using assms
proof (induction overlay arbitrary: acc)
  case Nil
  show ?case by simp
next
  case (Cons entry rest)
  obtain k' v where entry: "entry = (k', v)" by (cases entry)
  from Cons.prems entry have d: "distinct (map fst rest)" and fresh: "k' \<notin> fst ` set rest"
    by auto
  from fresh have none: "map_of rest k' = None"
    by (simp add: map_of_eq_None_iff)
  show ?case
    using Cons.IH [OF d] entry none
    by (auto simp: update_conv' split: option.splits)
qed

lemma mergeEntries_keys:
  "fst ` set (mergeEntries ctx base overlay acc) = fst ` set acc \<union> fst ` set overlay"
proof (induction overlay arbitrary: acc)
  case Nil
  show ?case by simp
next
  case (Cons entry rest)
  obtain k v where entry: "entry = (k, v)" by (cases entry)
  show ?case
    using Cons.IH entry by (auto simp: dom_update)
qed

lemma deepMerge_lookup:
  "distinct (map fst overlay) \<Longrightarrow>
   map_of (deepMerge base overlay ctx) k =
     (case map_of overlay k of
        Some v \<Rightarrow> Some (mergeValue ctx (map_of base k) v)
      | None \<Rightarrow> map_of base k)"
  by (simp add: deepMerge_def mergeEntries_lookup)

lemma mergeEntries_untouched:
  "k \<notin> fst ` set overlay \<Longrightarrow> map_of (mergeEntries ctx base overlay acc) k = map_of acc k"
proof (induction overlay arbitrary: acc)
  case Nil
  show ?case by simp
next
  case (Cons entry rest)
  obtain k' v where entry: "entry = (k', v)" by (cases entry)
  with Cons.prems have "k \<noteq> k'" and "k \<notin> fst ` set rest" by auto
  then show ?case
    using Cons.IH entry by (simp add: update_conv')
qed

lemma mergeValue_fresh:
  "\<not> isMergeDirective v \<Longrightarrow> mergeValue ctx None v = v"
  by (cases v) (auto split: option.splits)

text \<open>
  Keys of the merged mapping: the key set is the union of the two key sets, a key
  of the base alone keeps its value, and a key of the overlay alone gets the
  overlay's value, or the values sequence when that value is a MergeDirective.
\<close>

lemma deepMerge_key_union:
  "fst ` set (deepMerge base overlay ctx) = fst ` set base \<union> fst ` set overlay
   \<and> (distinct (map fst overlay) \<and> map_of overlay k = Some v \<and> k \<notin> fst ` set base
        \<and> \<not> isMergeDirective v \<longrightarrow>
        map_of (deepMerge base overlay ctx) k = Some v)
   \<and> (distinct (map fst overlay) \<and> map_of overlay k = Some (JObj d) \<and> k \<notin> fst ` set base
        \<and> asMergeDirective d = Some (s, vs) \<longrightarrow>
        map_of (deepMerge base overlay ctx) k = Some (JArr vs))
   \<and> (k \<notin> fst ` set overlay \<longrightarrow>
        map_of (deepMerge base overlay ctx) k = map_of base k)"
proof (intro conjI impI)
  show "fst ` set (deepMerge base overlay ctx) = fst ` set base \<union> fst ` set overlay"
    by (simp add: deepMerge_def mergeEntries_keys)
next
  assume h: "distinct (map fst overlay) \<and> map_of overlay k = Some v \<and> k \<notin> fst ` set base
        \<and> \<not> isMergeDirective v"
  then have "map_of base k = None"
    by (simp add: map_of_eq_None_iff)
  with h show "map_of (deepMerge base overlay ctx) k = Some v"
    by (simp add: deepMerge_lookup mergeValue_fresh)
next
  assume h: "distinct (map fst overlay) \<and> map_of overlay k = Some (JObj d) \<and> k \<notin> fst ` set base
        \<and> asMergeDirective d = Some (s, vs)"
  then have "map_of base k = None"
    by (simp add: map_of_eq_None_iff)
  with h show "map_of (deepMerge base overlay ctx) k = Some (JArr vs)"
    by (cases s) (simp_all add: deepMerge_lookup)
next
  assume "k \<notin> fst ` set overlay"
  then show "map_of (deepMerge base overlay ctx) k = map_of base k"
    by (simp add: deepMerge_def mergeEntries_untouched)
qed

subsection \<open>Claims about the merge engine\<close>

text \<open>
  C2. For every base, overlay (with distinct keys) and key \<open>k\<close>, \<^verbatim>\<open>deepMerge\<close> resolves
  array values by the strategy in effect. If \<open>overlay[k]\<close> is a MergeDirective, append
  yields \<open>base[k]\<close> (the empty sequence when absent) followed by the values, prepend
  yields the values followed by \<open>base[k]\<close>, whatever the ambient strategy of the
  context is. If \<open>overlay[k]\<close> is a plain sequence and \<open>base[k]\<close> is a sequence, the
  ambient strategy applies: replace discards \<open>base[k]\<close>, append and prepend
  concatenate with the plain sequence as values.
\<close>

theorem deepMerge_array_strategies:
  assumes "distinct (map fst overlay)"
  shows "(map_of overlay k = Some (JObj d) \<and> asMergeDirective d = Some (Append, vs) \<longrightarrow>
            map_of (deepMerge base overlay ctx) k
              = Some (JArr (baseSequence (map_of base k) @ vs)))
       \<and> (map_of overlay k = Some (JObj d) \<and> asMergeDirective d = Some (Prepend, vs) \<longrightarrow>
            map_of (deepMerge base overlay ctx) k
              = Some (JArr (vs @ baseSequence (map_of base k))))
       \<and> (map_of base k = None \<longrightarrow> baseSequence (map_of base k) = [])
       \<and> (map_of base k = Some (JArr bs) \<longrightarrow> baseSequence (map_of base k) = bs)
       \<and> (map_of overlay k = Some (JArr vs) \<and> map_of base k = Some (JArr bs) \<longrightarrow>
            map_of (deepMerge base overlay ctx) k
              = Some (JArr (case defaultArrayStrategy ctx of
                              Replace \<Rightarrow> vs
                            | Append \<Rightarrow> bs @ vs
                            | Prepend \<Rightarrow> vs @ bs)))"
  using assms
  by (auto simp: deepMerge_lookup split: ArrayMergeStrategy.splits)

theorem deepMerge_array_strategies_witness:
  "distinct (map fst exOverlay)
   \<and> map_of exOverlay ''a'' = Some (JObj [(''$arrayMerge'', JStr ''append''), (''values'', JArr [JNum 3])])
   \<and> asMergeDirective [(''$arrayMerge'', JStr ''append''), (''values'', JArr [JNum 3])] = Some (Append, [JNum 3])
   \<and> map_of (deepMerge exBase exOverlay (createMergeContext Replace)) ''a'' = Some (JArr [JNum 1, JNum 2, JNum 3])
   \<and> map_of exOverlay ''b'' = Some (JObj [(''$arrayMerge'', JStr ''prepend''), (''values'', JArr [JNum 3])])
   \<and> asMergeDirective [(''$arrayMerge'', JStr ''prepend''), (''values'', JArr [JNum 3])] = Some (Prepend, [JNum 3])
   \<and> map_of (deepMerge exBase exOverlay (createMergeContext Replace)) ''b'' = Some (JArr [JNum 3, JNum 1, JNum 2])
   \<and> map_of exBase ''d'' = None
   \<and> map_of (deepMerge exBase exOverlay (createMergeContext Replace)) ''d'' = Some (JArr [JNum 3])
   \<and> map_of exOverlay ''c'' = Some (JArr [JNum 3])
   \<and> map_of exBase ''c'' = Some (JArr [JNum 1, JNum 2])
   \<and> map_of (deepMerge exBase exOverlay (createMergeContext Replace)) ''c'' = Some (JArr [JNum 3])
   \<and> map_of (deepMerge exBase exOverlay (createMergeContext Append)) ''c'' = Some (JArr [JNum 1, JNum 2, JNum 3])
   \<and> map_of (deepMerge exBase exOverlay (createMergeContext Prepend)) ''c'' = Some (JArr [JNum 3, JNum 1, JNum 2])"
proof -
  have h: "distinct (map fst exOverlay)" by (simp add: exOverlay_def)
  have a: "map_of exOverlay ''a'' = Some (JObj [(''$arrayMerge'', JStr ''append''), (''values'', JArr [JNum 3])])"
    and b: "map_of exOverlay ''b'' = Some (JObj [(''$arrayMerge'', JStr ''prepend''), (''values'', JArr [JNum 3])])"
    and c: "map_of exOverlay ''c'' = Some (JArr [JNum 3])"
    and d: "map_of exOverlay ''d'' = Some (JObj [(''$arrayMerge'', JStr ''append''), (''values'', JArr [JNum 3])])"
    by (simp_all add: exOverlay_def)
  have da: "asMergeDirective [(''$arrayMerge'', JStr ''append''), (''values'', JArr [JNum 3])] = Some (Append, [JNum 3])"
    and dp: "asMergeDirective [(''$arrayMerge'', JStr ''prepend''), (''values'', JArr [JNum 3])] = Some (Prepend, [JNum 3])"
    by (simp_all add: asMergeDirective_def)
  have ba: "map_of exBase ''a'' = Some (JArr [JNum 1, JNum 2])"
    and bb: "map_of exBase ''b'' = Some (JArr [JNum 1, JNum 2])"
    and bc: "map_of exBase ''c'' = Some (JArr [JNum 1, JNum 2])"
    and bd: "map_of exBase ''d'' = None"
    by (simp_all add: exBase_def)
  note t = deepMerge_array_strategies [OF h]
  show ?thesis
    using h a b c d da dp ba bb bc bd
      t [of "''a''" "[(''$arrayMerge'', JStr ''append''), (''values'', JArr [JNum 3])]" "[JNum 3]" exBase "createMergeContext Replace" "[JNum 1, JNum 2]"]
      t [of "''b''" "[(''$arrayMerge'', JStr ''prepend''), (''values'', JArr [JNum 3])]" "[JNum 3]" exBase "createMergeContext Replace" "[JNum 1, JNum 2]"]
      t [of "''d''" "[(''$arrayMerge'', JStr ''append''), (''values'', JArr [JNum 3])]" "[JNum 3]" exBase "createMergeContext Replace" "[]"]
      t [of "''c''" "[]" "[JNum 3]" exBase "createMergeContext Replace" "[JNum 1, JNum 2]"]
      t [of "''c''" "[]" "[JNum 3]" exBase "createMergeContext Append" "[JNum 1, JNum 2]"]
      t [of "''c''" "[]" "[JNum 3]" exBase "createMergeContext Prepend" "[JNum 1, JNum 2]"]
    by (simp add: createMergeContext_def)
qed

subsection \<open>The validation loop\<close>

lemma validateRepos_ok_iff:
  "validateRepos h i rs = Inr () \<longleftrightarrow> list_all (repoPasses h) rs"
  by (induction rs arbitrary: i)
     (auto simp: repoPasses_def gitGiven_def split: option.splits)

lemma validateRepos_first_missing_git:
  assumes "n < length rs" and "\<not> gitGiven (cGit (rs ! n))"
    and "list_all (repoPasses h) (take n rs)"
  shows "validateRepos h i rs = Inl (MissingGit (i + n))"
  using assms
proof (induction rs arbitrary: i n)
  case Nil
  then show ?case by simp
next
  case (Cons repo rest)
  show ?case
  proof (cases n)
    case 0
    with Cons.prems show ?thesis
      by (auto simp: gitGiven_def split: option.splits)
  next
    case (Suc m)
    with Cons.prems have m: "m < length rest" "\<not> gitGiven (cGit (rest ! m))"
      "list_all (repoPasses h) (take m rest)" and p: "repoPasses h repo"
      by auto
    from Cons.IH [OF m, of "Suc i"] p Suc show ?thesis
      by (auto simp: repoPasses_def gitGiven_def split: option.splits)
  qed
qed

subsection \<open>Claims about validation\<close>

text \<open>
  C5, as amended. Validation by \<^verbatim>\<open>validateRawConfig\<close> succeeds only if \<^verbatim>\<open>repos\<close> is a
  sequence and every repo entry has a git field (present and not the empty
  string). A repo entry lacking git, all entries before it being valid, fails
  validation with the error tagged with that repo's index. A document with an
  empty \<^verbatim>\<open>repos\<close> sequence passes validation.
\<close>

theorem validation_requires_git:
  "(validateRawConfig config = Inr () \<longrightarrow>
      (\<exists>rs. cRepos config = Some rs \<and> list_all (\<lambda>repo. gitGiven (cGit repo)) rs))
   \<and> (cFileName config = Some name \<and> name \<noteq> [] \<and> cRepos config = Some rs
        \<and> n < length rs \<and> \<not> gitGiven (cGit (rs ! n))
        \<and> list_all (repoPasses (cRootJson config \<noteq> None)) (take n rs) \<longrightarrow>
      validateRawConfig config = Inl (MissingGit n))
   \<and> (cFileName config = Some name \<and> name \<noteq> [] \<and> cRepos config = Some [] \<longrightarrow>
      validateRawConfig config = Inr ())"
proof (intro conjI impI)
  assume ok: "validateRawConfig config = Inr ()"
  then obtain rs where rs: "cRepos config = Some rs"
    and "validateRepos (cRootJson config \<noteq> None) 0 rs = Inr ()"
    by (auto simp: validateRawConfig_def split: if_splits option.splits)
  then have "list_all (repoPasses (cRootJson config \<noteq> None)) rs"
    by (simp add: validateRepos_ok_iff)
  then have "list_all (\<lambda>repo. gitGiven (cGit repo)) rs"
    by (simp add: list_all_iff repoPasses_def)
  with rs show "\<exists>rs. cRepos config = Some rs \<and> list_all (\<lambda>repo. gitGiven (cGit repo)) rs"
    by simp
next
  assume h: "cFileName config = Some name \<and> name \<noteq> [] \<and> cRepos config = Some rs
        \<and> n < length rs \<and> \<not> gitGiven (cGit (rs ! n))
        \<and> list_all (repoPasses (cRootJson config \<noteq> None)) (take n rs)"
  then have "validateRepos (cRootJson config \<noteq> None) 0 rs = Inl (MissingGit (0 + n))"
    by (intro validateRepos_first_missing_git) simp_all
  with h show "validateRawConfig config = Inl (MissingGit n)"
    by (simp add: validateRawConfig_def)
next
  assume "cFileName config = Some name \<and> name \<noteq> [] \<and> cRepos config = Some []"
  then show "validateRawConfig config = Inr ()"
    by (simp add: validateRawConfig_def)
qed

theorem validation_requires_git_witness:
  "validateRawConfig (exConfig ''config.json'' [exRepo ''git@github.com:org/repo1.git'']) = Inr ()
   \<and> list_all (\<lambda>repo. gitGiven (cGit repo)) [exRepo ''git@github.com:org/repo1.git'']
   \<and> Suc 0 < length [exRepo ''git@github.com:org/repo1.git'', exRepo '''']
   \<and> \<not> gitGiven (cGit ([exRepo ''git@github.com:org/repo1.git'', exRepo ''''] ! Suc 0))
   \<and> list_all (repoPasses True) (take (Suc 0) [exRepo ''git@github.com:org/repo1.git'', exRepo ''''])
   \<and> validateRawConfig (exConfig ''config.json'' [exRepo ''git@github.com:org/repo1.git'', exRepo ''''])
        = Inl (MissingGit (Suc 0))
   \<and> validateRawConfig (exConfig ''config.json'' []) = Inr ()"
proof -
  let ?one = "[exRepo ''git@github.com:org/repo1.git'']"
  let ?two = "[exRepo ''git@github.com:org/repo1.git'', exRepo '''']"
  have ok: "validateRawConfig (exConfig ''config.json'' ?one) = Inr ()"
    by (simp add: validateRawConfig_def exConfig_def exRepo_def)
  have h1: "Suc 0 < length ?two" by simp
  have h2: "\<not> gitGiven (cGit (?two ! Suc 0))" by (simp add: gitGiven_def exRepo_def)
  have h3: "list_all (repoPasses True) (take (Suc 0) ?two)"
    by (simp add: repoPasses_def gitGiven_def exRepo_def)
  show ?thesis
    using ok h1 h2 h3
      validation_requires_git [of "exConfig ''config.json'' ?one"]
      validation_requires_git [of "exConfig ''config.json'' ?two" "''config.json''" ?two "Suc 0"]
      validation_requires_git [of "exConfig ''config.json'' []" "''config.json''"]
    by (simp add: exConfig_def)
qed

text \<open>
  The claim as stated fails on an empty \<^verbatim>\<open>repos\<close> sequence: the document is valid
  and normalizes to an empty list of repos.
\<close>

theorem empty_repos_counterexample:
  "cRepos (exConfig ''config.json'' []) = Some []
   \<and> validateRawConfig (exConfig ''config.json'' []) = Inr ()
   \<and> config_normalizeConfig Map.empty (exConfig ''config.json'' [])
        = Inr \<lparr>oFileName = Some ''config.json'', oRepos = []\<rparr>"
  by (simp add: validateRawConfig_def config_normalizeConfig_def exConfig_def)

text \<open>
  The loop tests \<^verbatim>\<open>!repo.git\<close> only, and an empty array is truthy: an entry whose
  git is an empty array passes, where the tests of the validator expect
  \<^verbatim>\<open>Repo at index 0 has empty git array\<close>.
\<close>

lemma empty_git_array_accepted:
  "validateRawConfig
     (exConfig ''config.json'' [\<lparr>cGit = Some (GitUrls []), cJson = Some [(''key'', JStr ''value'')], cOverride = None\<rparr>])
   = Inr ()"
  by (simp add: validateRawConfig_def exConfig_def)

text \<open>
  C6. The claim: validation fails with an invalid-file-name error whenever the
  target file name is empty, contains a \<^verbatim>\<open>..\<close> segment, is absolute, or contains a
  newline, carriage return or null byte. \<^verbatim>\<open>validateRawConfig\<close> of \<^verbatim>\<open>config.ts\<close> only
  tests that the name is present and not empty: it accepts each of the names the
  tests of the validator expect it to reject.
\<close>

theorem unsafe_file_names_accepted:
  "validateRawConfig (exConfig ''../config.json'' [exRepo ''git@github.com:org/repo.git'']) = Inr ()
   \<and> validateRawConfig (exConfig ''path/../config.json'' [exRepo ''git@github.com:org/repo.git'']) = Inr ()
   \<and> validateRawConfig (exConfig ''/etc/config.json'' [exRepo ''git@github.com:org/repo.git'']) = Inr ()
   \<and> validateRawConfig (exConfig (''config'' @ [CHR 0x0A] @ ''.json'') [exRepo ''git@github.com:org/repo.git'']) = Inr ()
   \<and> validateRawConfig (exConfig (''config'' @ [CHR 0x0D] @ ''.json'') [exRepo ''git@github.com:org/repo.git'']) = Inr ()
   \<and> validateRawConfig (exConfig (''config'' @ [CHR 0x00] @ ''.json'') [exRepo ''git@github.com:org/repo.git'']) = Inr ()
   \<and> validateRawConfig (exConfig '''' [exRepo ''git@github.com:org/repo.git'']) = Inl MissingFileName"
  by (simp add: validateRawConfig_def exConfig_def exRepo_def)

subsection \<open>The loops of the normalizers\<close>

text \<open>Unfolding sets for running the normalizers on the example documents.\<close>

lemmas ex_defs = exFile_def exDoc_def inheritRepo_def entryRepo_def directiveItems_def
  itemsAB_def itemsCD_def

lemmas run_defs = normalizeConfig_def processFile_def mergedContent_def repoOverride_def
  interpolateEnvVars_def interpolateString_def matchOccurrence_def asMergeDirective_def
  deepMerge_def createMergeContext_def

lemmas out_defs = mergeEntry_def outFile_def outRepo_def itemsABCD_def exSingle_def

lemmas config_run_defs = config_normalizeConfig_def config_mergedJson_def validateRawConfig_def

text \<open>Every file of the output is the result of the loop body for some raw repo.\<close>

lemma processFile_Some:
  assumes "processFile e raw rawRepo name = Inr (Some f)"
  shows "\<exists>fileConfig. map_of (rawFiles raw) name = Some fileConfig
           \<and> repoOverride rawRepo name \<noteq> Some Excluded
           \<and> fileName f = name
           \<and> mergedContent e fileConfig (overrideOf rawRepo name) = Inr (content f)
           \<and> createOnly f =
               (case (case overrideOf rawRepo name of None \<Rightarrow> None | Some r \<Rightarrow> overrideCreateOnly r) of
                  Some b \<Rightarrow> Some b
                | None \<Rightarrow> fileCreateOnly fileConfig)"
proof (cases "repoOverride rawRepo name = Some Excluded")
  case True
  with assms show ?thesis by (simp add: processFile_def)
next
  case False
  from assms obtain fileConfig where fc: "map_of (rawFiles raw) name = Some fileConfig"
    by (cases "map_of (rawFiles raw) name")
       (auto simp: processFile_def split: option.splits RepoFileEntry.splits)
  from assms fc False show ?thesis
    by (auto simp: processFile_def overrideOf_def Let_def
             split: option.splits RepoFileEntry.splits sum.splits)
qed

lemma processFiles_member:
  "processFiles e raw rawRepo names = Inr fs \<Longrightarrow> f \<in> set fs \<Longrightarrow>
   \<exists>name \<in> set names. processFile e raw rawRepo name = Inr (Some f)"
proof (induction names arbitrary: fs)
  case Nil
  then show ?case by simp
next
  case (Cons name names)
  then show ?case
    by (auto split: sum.splits option.splits)
qed

lemma expandGitUrls_member:
  "expandGitUrls e raw rawRepo urls = Inr rs \<Longrightarrow> rc \<in> set rs \<Longrightarrow>
   git rc \<in> set urls \<and> processFiles e raw rawRepo (map fst (rawFiles raw)) = Inr (files rc)"
proof (induction urls arbitrary: rs)
  case Nil
  then show ?case by simp
next
  case (Cons url urls)
  then show ?case
    by (auto split: sum.splits)
qed

lemma expandRepos_member:
  "expandRepos e raw rawRepos' = Inr rs \<Longrightarrow> rc \<in> set rs \<Longrightarrow>
   \<exists>rawRepo \<in> set rawRepos'. git rc \<in> set (gitUrls (rawGit rawRepo))
      \<and> processFiles e raw rawRepo (map fst (rawFiles raw)) = Inr (files rc)"
proof (induction rawRepos' arbitrary: rs)
  case Nil
  then show ?case by simp
next
  case (Cons rawRepo rest)
  from Cons.prems obtain here others where
    here: "expandGitUrls e raw rawRepo (gitUrls (rawGit rawRepo)) = Inr here"
    and others: "expandRepos e raw rest = Inr others" and rs: "rs = here @ others"
    by (auto split: sum.splits)
  from Cons.prems(2) rs consider "rc \<in> set here" | "rc \<in> set others" by auto
  then show ?case
  proof cases
    case 1
    with here show ?thesis by (auto dest: expandGitUrls_member)
  next
    case 2
    with Cons.IH [OF others] show ?thesis by auto
  qed
qed

lemma normalizeConfig_file:
  assumes "normalizeConfig e raw = Inr cfg" and "rc \<in> set (repos cfg)" and "f \<in> set (files rc)"
  shows "\<exists>rawRepo \<in> set (rawRepos raw). git rc \<in> set (gitUrls (rawGit rawRepo))
           \<and> processFile e raw rawRepo (fileName f) = Inr (Some f)"
proof -
  from assms(1) have "expandRepos e raw (rawRepos raw) = Inr (repos cfg)"
    by (auto simp: normalizeConfig_def split: sum.splits)
  from expandRepos_member [OF this assms(2)] obtain rawRepo where
    r: "rawRepo \<in> set (rawRepos raw)" "git rc \<in> set (gitUrls (rawGit rawRepo))"
    and fs: "processFiles e raw rawRepo (map fst (rawFiles raw)) = Inr (files rc)"
    by auto
  from processFiles_member [OF fs assms(3)] obtain name where
    p: "processFile e raw rawRepo name = Inr (Some f)"
    by auto
  then have "fileName f = name"
    by (auto dest: processFile_Some)
  with r p show ?thesis by auto
qed

text \<open>Merge mode.\<close>

lemma mergedContent_merge_mode:
  assumes "override r \<noteq> Some True" and "overrideContent r = Some c"
  shows "mergedContent e fileConfig (Some r) =
     interpolateEnvVars e
       (stripMergeDirectives
          (JObj (deepMerge (baseContentOf fileConfig) c (createMergeContext (fileStrategyOf fileConfig)))))
       \<lparr>strict = True\<rparr>"
  using assms by (simp add: mergedContent_def baseContentOf_def fileStrategyOf_def Let_def del: stripMergeDirectives.simps)

lemma config_mergedJson_merge_mode:
  assumes "cOverride rawRepo \<noteq> Some True" and "cJson rawRepo = Some j"
  shows "config_mergedJson e raw rawRepo =
     interpolateEnvVars e
       (stripMergeDirectives
          (JObj (deepMerge (rootJsonOf raw) j (createMergeContext (defaultStrategyOf raw)))))
       \<lparr>strict = True\<rparr>"
  using assms by (simp add: config_mergedJson_def rootJsonOf_def defaultStrategyOf_def Let_def del: stripMergeDirectives.simps)

text \<open>The document-level strategy is not read.\<close>

lemma processFile_ignores_document_strategy:
  "processFile e (raw\<lparr>rawMergeStrategy := d\<rparr>) rawRepo name = processFile e raw rawRepo name"
  by (simp add: processFile_def cong: option.case_cong RepoFileEntry.case_cong)

lemma processFiles_ignores_document_strategy:
  "processFiles e (raw\<lparr>rawMergeStrategy := d\<rparr>) rawRepo names = processFiles e raw rawRepo names"
  by (induction names)
     (simp_all add: processFile_ignores_document_strategy cong: sum.case_cong option.case_cong)

lemma expandGitUrls_ignores_document_strategy:
  "expandGitUrls e (raw\<lparr>rawMergeStrategy := d\<rparr>) rawRepo urls = expandGitUrls e raw rawRepo urls"
  by (induction urls)
     (simp_all add: processFiles_ignores_document_strategy cong: sum.case_cong)

lemma expandRepos_ignores_document_strategy:
  "expandRepos e (raw\<lparr>rawMergeStrategy := d\<rparr>) rs = expandRepos e raw rs"
  by (induction rs)
     (simp_all add: expandGitUrls_ignores_document_strategy cong: sum.case_cong)

lemma normalizeConfig_ignores_document_strategy:
  "normalizeConfig e (raw\<lparr>rawMergeStrategy := d\<rparr>) = normalizeConfig e raw"
  by (simp add: normalizeConfig_def expandRepos_ignores_document_strategy)

text \<open>The outputs of the single-file normalizer.\<close>

lemma config_expandGitUrls_member:
  "config_expandGitUrls e raw rawRepo urls = Inr rs \<Longrightarrow> rc \<in> set rs \<Longrightarrow>
   oGit rc \<in> set urls \<and> config_mergedJson e raw rawRepo = Inr (oJson rc)"
proof (induction urls arbitrary: rs)
  case Nil
  then show ?case by simp
next
  case (Cons url urls)
  then show ?case
    by (auto split: sum.splits)
qed

lemma config_expandRepos_member:
  "config_expandRepos e raw rawRepos' = Inr rs \<Longrightarrow> rc \<in> set rs \<Longrightarrow>
   \<exists>rawRepo \<in> set rawRepos'. oGit rc \<in> set (config_gitUrls (cGit rawRepo))
      \<and> config_mergedJson e raw rawRepo = Inr (oJson rc)"
proof (induction rawRepos' arbitrary: rs)
  case Nil
  then show ?case by simp
next
  case (Cons rawRepo rest)
  from Cons.prems obtain here others where
    here: "config_expandGitUrls e raw rawRepo (config_gitUrls (cGit rawRepo)) = Inr here"
    and others: "config_expandRepos e raw rest = Inr others" and rs: "rs = here @ others"
    by (auto split: sum.splits)
  from Cons.prems(2) rs consider "rc \<in> set here" | "rc \<in> set others" by auto
  then show ?case
  proof cases
    case 1
    with here show ?thesis by (auto dest: config_expandGitUrls_member)
  next
    case 2
    with Cons.IH [OF others] show ?thesis by auto
  qed
qed

lemma config_normalizeConfig_repo:
  assumes "config_normalizeConfig e raw = Inr cfg" and "rc \<in> set (oRepos cfg)"
  shows "\<exists>rs. cRepos raw = Some rs
           \<and> (\<exists>rawRepo \<in> set rs. oGit rc \<in> set (config_gitUrls (cGit rawRepo))
                 \<and> config_mergedJson e raw rawRepo = Inr (oJson rc))"
proof -
  from assms(1) obtain rs where rs: "cRepos raw = Some rs"
    and "config_expandRepos e raw rs = Inr (oRepos cfg)"
    by (auto simp: config_normalizeConfig_def split: option.splits sum.splits)
  from config_expandRepos_member [OF this(2) assms(2)] rs show ?thesis
    by auto
qed

subsection \<open>Directive stripping\<close>

text \<open>
  The result of \<^verbatim>\<open>stripMergeDirectives\<close> holds no directive shape: the content of
  override mode and of merge mode is directive-free when it is handed to the
  interpolator.
\<close>

lemma directiveFreeEntries_lookup:
  "directiveFreeEntries kvs \<Longrightarrow> map_of kvs k = Some v \<Longrightarrow> directiveFree v"
  by (induction kvs) (auto split: if_splits)

lemma asMergeDirective_values:
  "asMergeDirective kvs = Some (s, vs) \<Longrightarrow> map_of kvs ''values'' = Some (JArr vs)"
  by (auto simp: asMergeDirective_def split: option.splits json.splits if_splits)

lemma stripMergeDirectives_directiveFree:
  "directiveFree (stripMergeDirectives v)"
  "directiveFreeItems (stripItems xs)"
  "directiveFreeEntries (stripEntries kvs)"
proof (induction v and xs and kvs rule: stripMergeDirectives_stripItems_stripEntries.induct)
  case (1 kvs)
  show ?case
  proof (cases "asMergeDirective (stripEntries kvs)")
    case None
    with 1 show ?thesis by simp
  next
    case (Some d)
    obtain s vs where d: "d = (s, vs)" by (cases d)
    with Some have "map_of (stripEntries kvs) ''values'' = Some (JArr vs)"
      by (simp add: asMergeDirective_values)
    with "1.IH"(1) have "directiveFree (JArr vs)"
      by (rule directiveFreeEntries_lookup)
    with Some d show ?thesis by simp
  qed
qed simp_all

lemma stripped_content_directiveFree:
  "directiveFree (stripMergeDirectives (JObj c))"
  "directiveFree (stripMergeDirectives (JObj (deepMerge base c ctx)))"
  by (rule stripMergeDirectives_directiveFree)+

subsection \<open>Claims about the normalizer\<close>

text \<open>
  C1. The claim: every \<^verbatim>\<open>content\<close> in the output of \<^verbatim>\<open>normalizeConfig\<close> is
  directive-free on every path: override mode, inherit mode and merge mode.
  Override mode and merge mode call \<^verbatim>\<open>stripMergeDirectives\<close>; inherit mode copies
  the base content as it is. A base content with a directive and a repo without
  override leave the directive in the output, with the normalizer over files and
  with the one of \<^verbatim>\<open>config.ts\<close> (on a document its validation accepts); the same
  directive given at repo level is stripped in override mode and resolved in
  merge mode.
\<close>

theorem inherit_mode_keeps_directive:
  "normalizeConfig Map.empty (exDoc (exFile directiveItems None None) None [inheritRepo])
     = Inr \<lparr>repos = [outRepo (outFile (JObj directiveItems) None)]\<rparr>
   \<and> \<not> directiveFree (JObj directiveItems)
   \<and> normalizeConfig Map.empty
        (exDoc (exFile itemsAB None None) None
           [entryRepo \<lparr>override = Some True, overrideContent = Some directiveItems,
                       overrideCreateOnly = None\<rparr>])
     = Inr \<lparr>repos = [outRepo (outFile (JObj [(''items'', JArr [JStr ''b''])]) None)]\<rparr>
   \<and> normalizeConfig Map.empty
        (exDoc (exFile itemsAB None None) None
           [entryRepo \<lparr>override = None, overrideContent = Some directiveItems,
                       overrideCreateOnly = None\<rparr>])
     = Inr \<lparr>repos = [outRepo (outFile (JObj [(''items'', JArr [JStr ''a'', JStr ''b'', JStr ''b''])]) None)]\<rparr>
   \<and> validateRawConfig (exSingle directiveItems None None) = Inr ()
   \<and> config_normalizeConfig Map.empty (exSingle directiveItems None None)
     = Inr \<lparr>oFileName = Some ''config.json'',
            oRepos = [\<lparr>oGit = Some ''git@github.com:org/repo.git'', oJson = JObj directiveItems\<rparr>]\<rparr>"
  by (simp add: ex_defs out_defs run_defs config_run_defs)

text \<open>
  C3, as amended. In merge mode (repo-level content given without the override
  flag) \<^verbatim>\<open>normalizeConfig\<close> deep-merges the base content with the repo content and
  strips the result, the ambient array strategy being the file's own
  \<^verbatim>\<open>mergeStrategy\<close> when specified and replace otherwise; a document-level
  \<^verbatim>\<open>mergeStrategy\<close> changes nothing. The single-file \<^verbatim>\<open>normalizeConfig\<close> of
  \<^verbatim>\<open>config.ts\<close>, which has no per-file strategy, uses the document-level
  \<^verbatim>\<open>mergeStrategy\<close> when specified and replace otherwise. In both, the raw repo
  entry is the one whose loop body produced the output entry.
\<close>

theorem merge_mode_strategy:
  "(normalizeConfig e raw = Inr cfg \<and> rc \<in> set (repos cfg) \<and> f \<in> set (files rc) \<longrightarrow>
      (\<exists>rawRepo \<in> set (rawRepos raw). \<exists>fileConfig.
          git rc \<in> set (gitUrls (rawGit rawRepo))
        \<and> processFile e raw rawRepo (fileName f) = Inr (Some f)
        \<and> map_of (rawFiles raw) (fileName f) = Some fileConfig
        \<and> (\<forall>r c. overrideOf rawRepo (fileName f) = Some r \<and> override r \<noteq> Some True
                \<and> overrideContent r = Some c \<longrightarrow>
              interpolateEnvVars e
                (stripMergeDirectives
                   (JObj (deepMerge (baseContentOf fileConfig) c
                            (createMergeContext (fileStrategyOf fileConfig)))))
                \<lparr>strict = True\<rparr> = Inr (content f))))
   \<and> normalizeConfig e (raw\<lparr>rawMergeStrategy := d\<rparr>) = normalizeConfig e raw
   \<and> (config_normalizeConfig e craw = Inr ccfg \<and> crc \<in> set (oRepos ccfg) \<longrightarrow>
      (\<exists>rs. cRepos craw = Some rs
         \<and> (\<exists>rawRepo \<in> set rs. oGit crc \<in> set (config_gitUrls (cGit rawRepo))
              \<and> config_mergedJson e craw rawRepo = Inr (oJson crc)
              \<and> (\<forall>j. cOverride rawRepo \<noteq> Some True \<and> cJson rawRepo = Some j \<longrightarrow>
                    interpolateEnvVars e
                      (stripMergeDirectives
                         (JObj (deepMerge (rootJsonOf craw) j
                                  (createMergeContext (defaultStrategyOf craw)))))
                      \<lparr>strict = True\<rparr> = Inr (oJson crc)))))"
proof (intro conjI impI)
  assume h: "normalizeConfig e raw = Inr cfg \<and> rc \<in> set (repos cfg) \<and> f \<in> set (files rc)"
  then obtain rawRepo where
    r: "rawRepo \<in> set (rawRepos raw)" "git rc \<in> set (gitUrls (rawGit rawRepo))"
    and p: "processFile e raw rawRepo (fileName f) = Inr (Some f)"
    using normalizeConfig_file [of e raw cfg rc f] by auto
  from processFile_Some [OF p] obtain fileConfig where
    fc: "map_of (rawFiles raw) (fileName f) = Some fileConfig"
    and m: "mergedContent e fileConfig (overrideOf rawRepo (fileName f)) = Inr (content f)"
    by auto
  have "interpolateEnvVars e
          (stripMergeDirectives
             (JObj (deepMerge (baseContentOf fileConfig) c
                      (createMergeContext (fileStrategyOf fileConfig)))))
          \<lparr>strict = True\<rparr> = Inr (content f)"
    if "overrideOf rawRepo (fileName f) = Some r \<and> override r \<noteq> Some True
          \<and> overrideContent r = Some c" for r c
    using that m mergedContent_merge_mode [of r c e fileConfig] by simp
  with r p fc show "\<exists>rawRepo \<in> set (rawRepos raw). \<exists>fileConfig.
          git rc \<in> set (gitUrls (rawGit rawRepo))
        \<and> processFile e raw rawRepo (fileName f) = Inr (Some f)
        \<and> map_of (rawFiles raw) (fileName f) = Some fileConfig
        \<and> (\<forall>r c. overrideOf rawRepo (fileName f) = Some r \<and> override r \<noteq> Some True
                \<and> overrideContent r = Some c \<longrightarrow>
              interpolateEnvVars e
                (stripMergeDirectives
                   (JObj (deepMerge (baseContentOf fileConfig) c
                            (createMergeContext (fileStrategyOf fileConfig)))))
                \<lparr>strict = True\<rparr> = Inr (content f))"
    by blast
next
  show "normalizeConfig e (raw\<lparr>rawMergeStrategy := d\<rparr>) = normalizeConfig e raw"
    by (rule normalizeConfig_ignores_document_strategy)
next
  assume h: "config_normalizeConfig e craw = Inr ccfg \<and> crc \<in> set (oRepos ccfg)"
  then obtain rs rawRepo where rs: "cRepos craw = Some rs" "rawRepo \<in> set rs"
    "oGit crc \<in> set (config_gitUrls (cGit rawRepo))"
    and m: "config_mergedJson e craw rawRepo = Inr (oJson crc)"
    using config_normalizeConfig_repo [of e craw ccfg crc] by auto
  have "interpolateEnvVars e
          (stripMergeDirectives
             (JObj (deepMerge (rootJsonOf craw) j (createMergeContext (defaultStrategyOf craw)))))
          \<lparr>strict = True\<rparr> = Inr (oJson crc)"
    if "cOverride rawRepo \<noteq> Some True \<and> cJson rawRepo = Some j" for j
    using that m config_mergedJson_merge_mode [of rawRepo j e craw] by simp
  with rs m show "\<exists>rs. cRepos craw = Some rs
         \<and> (\<exists>rawRepo \<in> set rs. oGit crc \<in> set (config_gitUrls (cGit rawRepo))
              \<and> config_mergedJson e craw rawRepo = Inr (oJson crc)
              \<and> (\<forall>j. cOverride rawRepo \<noteq> Some True \<and> cJson rawRepo = Some j \<longrightarrow>
                    interpolateEnvVars e
                      (stripMergeDirectives
                         (JObj (deepMerge (rootJsonOf craw) j
                                  (createMergeContext (defaultStrategyOf craw)))))
                      \<lparr>strict = True\<rparr> = Inr (oJson crc)))"
    by blast
qed

theorem merge_mode_strategy_witness:
  "normalizeConfig Map.empty (exDoc (exFile itemsAB (Some Append) None) None [entryRepo mergeEntry])
     = Inr \<lparr>repos = [outRepo (outFile (JObj itemsABCD) (Some False))]\<rparr>
   \<and> outRepo (outFile (JObj itemsABCD) (Some False))
        \<in> set (repos \<lparr>repos = [outRepo (outFile (JObj itemsABCD) (Some False))]\<rparr>)
   \<and> outFile (JObj itemsABCD) (Some False)
        \<in> set (files (outRepo (outFile (JObj itemsABCD) (Some False))))
   \<and> overrideOf (entryRepo mergeEntry) ''config.json'' = Some mergeEntry
   \<and> override mergeEntry \<noteq> Some True
   \<and> overrideContent mergeEntry = Some itemsCD
   \<and> interpolateEnvVars Map.empty
        (stripMergeDirectives
           (JObj (deepMerge (baseContentOf (exFile itemsAB (Some Append) None)) itemsCD
                    (createMergeContext (fileStrategyOf (exFile itemsAB (Some Append) None))))))
        \<lparr>strict = True\<rparr> = Inr (JObj itemsABCD)
   \<and> normalizeConfig Map.empty
        (exDoc (exFile itemsAB (Some Append) None) None [entryRepo mergeEntry]\<lparr>rawMergeStrategy := Some Prepend\<rparr>)
      = Inr \<lparr>repos = [outRepo (outFile (JObj itemsABCD) (Some False))]\<rparr>
   \<and> config_normalizeConfig Map.empty (exSingle itemsAB (Some Append) (Some itemsCD))
      = Inr \<lparr>oFileName = Some ''config.json'',
             oRepos = [\<lparr>oGit = Some ''git@github.com:org/repo.git'', oJson = JObj itemsABCD\<rparr>]\<rparr>
   \<and> \<lparr>oGit = Some ''git@github.com:org/repo.git'', oJson = JObj itemsABCD\<rparr>
        \<in> set (oRepos \<lparr>oFileName = Some ''config.json'',
             oRepos = [\<lparr>oGit = Some ''git@github.com:org/repo.git'', oJson = JObj itemsABCD\<rparr>]\<rparr>)
   \<and> interpolateEnvVars Map.empty
        (stripMergeDirectives
           (JObj (deepMerge (rootJsonOf (exSingle itemsAB (Some Append) (Some itemsCD))) itemsCD
                    (createMergeContext (defaultStrategyOf (exSingle itemsAB (Some Append) (Some itemsCD)))))))
        \<lparr>strict = True\<rparr> = Inr (JObj itemsABCD)"
proof -
  let ?doc = "exDoc (exFile itemsAB (Some Append) None) None [entryRepo mergeEntry]"
  let ?f = "outFile (JObj itemsABCD) (Some False)"
  let ?cfg = "\<lparr>repos = [outRepo ?f]\<rparr>"
  let ?cdoc = "exSingle itemsAB (Some Append) (Some itemsCD)"
  let ?crc = "\<lparr>oGit = Some ''git@github.com:org/repo.git'', oJson = JObj itemsABCD\<rparr>"
  let ?ccfg = "\<lparr>oFileName = Some ''config.json'', oRepos = [?crc]\<rparr>"
  have h1: "normalizeConfig Map.empty ?doc = Inr ?cfg"
    by (simp add: ex_defs out_defs run_defs)
  have h2: "outRepo ?f \<in> set (repos ?cfg)" by simp
  have h3: "?f \<in> set (files (outRepo ?f))" by (simp add: outRepo_def)
  have h4: "overrideOf (entryRepo mergeEntry) ''config.json'' = Some mergeEntry"
    by (simp add: overrideOf_def repoOverride_def entryRepo_def)
  have h5: "override mergeEntry \<noteq> Some True" "overrideContent mergeEntry = Some itemsCD"
    by (simp_all add: mergeEntry_def)
  have g1: "config_normalizeConfig Map.empty ?cdoc = Inr ?ccfg"
    by (simp add: ex_defs out_defs run_defs config_run_defs)
  have g2: "?crc \<in> set (oRepos ?ccfg)" by simp
  have g3: "cRepos ?cdoc = Some [\<lparr>cGit = Some (GitUrl ''git@github.com:org/repo.git''),
                                   cJson = Some itemsCD, cOverride = None\<rparr>]"
    by (simp add: exSingle_def)
  note t = merge_mode_strategy [of Map.empty ?doc ?cfg "outRepo ?f" ?f "Some Prepend" ?cdoc ?ccfg ?crc]
  have d: "rawRepos ?doc = [entryRepo mergeEntry]"
    "map_of (rawFiles ?doc) ''config.json'' = Some (exFile itemsAB (Some Append) None)"
    "fileName ?f = ''config.json''" "content ?f = JObj itemsABCD"
    by (simp_all add: exDoc_def outFile_def)
  from t h1 h2 h3 obtain rawRepo fileConfig where
    a: "rawRepo \<in> set (rawRepos ?doc)"
    and b: "map_of (rawFiles ?doc) (fileName ?f) = Some fileConfig"
    and c: "\<forall>r c. overrideOf rawRepo (fileName ?f) = Some r \<and> override r \<noteq> Some True
        \<and> overrideContent r = Some c \<longrightarrow>
      interpolateEnvVars Map.empty
        (stripMergeDirectives
           (JObj (deepMerge (baseContentOf fileConfig) c
                    (createMergeContext (fileStrategyOf fileConfig)))))
        \<lparr>strict = True\<rparr> = Inr (content ?f)"
    by blast
  from a b d have "rawRepo = entryRepo mergeEntry"
    and "fileConfig = exFile itemsAB (Some Append) None"
    by simp_all
  with c d h4 h5 have c1: "interpolateEnvVars Map.empty
        (stripMergeDirectives
           (JObj (deepMerge (baseContentOf (exFile itemsAB (Some Append) None)) itemsCD
                    (createMergeContext (fileStrategyOf (exFile itemsAB (Some Append) None))))))
        \<lparr>strict = True\<rparr> = Inr (JObj itemsABCD)"
    by (simp del: stripMergeDirectives.simps)
  from t h1 have c2: "normalizeConfig Map.empty (?doc\<lparr>rawMergeStrategy := Some Prepend\<rparr>) = Inr ?cfg"
    by simp
  from t g1 g2 obtain rs crawRepo where
    a': "cRepos ?cdoc = Some rs" "crawRepo \<in> set rs"
    and c': "\<forall>j. cOverride crawRepo \<noteq> Some True \<and> cJson crawRepo = Some j \<longrightarrow>
      interpolateEnvVars Map.empty
        (stripMergeDirectives
           (JObj (deepMerge (rootJsonOf ?cdoc) j (createMergeContext (defaultStrategyOf ?cdoc)))))
        \<lparr>strict = True\<rparr> = Inr (oJson ?crc)"
    by blast
  from a' g3 have "crawRepo = \<lparr>cGit = Some (GitUrl ''git@github.com:org/repo.git''),
                                   cJson = Some itemsCD, cOverride = None\<rparr>"
    by auto
  with c' have c3: "interpolateEnvVars Map.empty
        (stripMergeDirectives
           (JObj (deepMerge (rootJsonOf ?cdoc) itemsCD (createMergeContext (defaultStrategyOf ?cdoc)))))
        \<lparr>strict = True\<rparr> = Inr (JObj itemsABCD)"
    by (simp del: stripMergeDirectives.simps)
  from h1 h2 h3 h4 h5 c1 c2 g1 g2 c3 show ?thesis
    by (intro conjI)
qed

text \<open>
  The claim as stated fails when only the document-level strategy is given: with
  \<^verbatim>\<open>mergeStrategy: append\<close> at document level and none on the file, the arrays are
  replaced, not appended.
\<close>

theorem document_strategy_counterexample:
  "rawMergeStrategy (exDoc (exFile itemsAB None None) (Some Append) [entryRepo mergeEntry]) = Some Append
   \<and> fileMergeStrategy (exFile itemsAB None None) = None
   \<and> normalizeConfig Map.empty (exDoc (exFile itemsAB None None) (Some Append) [entryRepo mergeEntry])
       = Inr \<lparr>repos = [outRepo (outFile (JObj itemsCD) (Some False))]\<rparr>
   \<and> JObj (deepMerge itemsAB itemsCD (createMergeContext Append)) = JObj itemsABCD
   \<and> JObj itemsCD \<noteq> JObj itemsABCD"
  by (simp add: ex_defs out_defs run_defs)

text \<open>
  C4, as amended. For every (repo, file) pair of the output, \<^verbatim>\<open>createOnly\<close> is the
  repo-level override's \<^verbatim>\<open>createOnly\<close> when present, otherwise the file's base-level
  \<^verbatim>\<open>createOnly\<close>, which is absent when the file specifies none. The repo-level
  override is the one of the raw repo entry whose loop body produced the file.
\<close>

theorem createOnly_resolution:
  assumes "normalizeConfig e raw = Inr cfg" and "rc \<in> set (repos cfg)" and "f \<in> set (files rc)"
  shows "\<exists>rawRepo \<in> set (rawRepos raw). \<exists>fileConfig.
           git rc \<in> set (gitUrls (rawGit rawRepo))
           \<and> processFile e raw rawRepo (fileName f) = Inr (Some f)
           \<and> map_of (rawFiles raw) (fileName f) = Some fileConfig
           \<and> repoOverride rawRepo (fileName f) \<noteq> Some Excluded
           \<and> createOnly f =
               (case overrideOf rawRepo (fileName f) of
                  None \<Rightarrow> fileCreateOnly fileConfig
                | Some r \<Rightarrow>
                    (case overrideCreateOnly r of
                       Some b \<Rightarrow> Some b
                     | None \<Rightarrow> fileCreateOnly fileConfig))"
proof -
  from normalizeConfig_file [OF assms] obtain rawRepo where
    r: "rawRepo \<in> set (rawRepos raw)" "git rc \<in> set (gitUrls (rawGit rawRepo))"
    and p: "processFile e raw rawRepo (fileName f) = Inr (Some f)"
    by auto
  from processFile_Some [OF p] obtain fileConfig where
    "map_of (rawFiles raw) (fileName f) = Some fileConfig"
    "repoOverride rawRepo (fileName f) \<noteq> Some Excluded"
    "createOnly f =
       (case (case overrideOf rawRepo (fileName f) of None \<Rightarrow> None | Some r \<Rightarrow> overrideCreateOnly r) of
          Some b \<Rightarrow> Some b
        | None \<Rightarrow> fileCreateOnly fileConfig)"
    by auto
  with r p show ?thesis
    by (auto split: option.splits)
qed

theorem createOnly_resolution_witness:
  "normalizeConfig Map.empty
      (exDoc (exFile itemsAB None (Some True)) None [entryRepo (createOnlyEntry (Some False))])
     = Inr \<lparr>repos = [outRepo (outFile (JObj itemsAB) (Some False))]\<rparr>
   \<and> outRepo (outFile (JObj itemsAB) (Some False))
        \<in> set (repos \<lparr>repos = [outRepo (outFile (JObj itemsAB) (Some False))]\<rparr>)
   \<and> outFile (JObj itemsAB) (Some False) \<in> set (files (outRepo (outFile (JObj itemsAB) (Some False))))
   \<and> (\<exists>rawRepo \<in> set (rawRepos (exDoc (exFile itemsAB None (Some True)) None
                                      [entryRepo (createOnlyEntry (Some False))])).
        \<exists>fileConfig.
           git (outRepo (outFile (JObj itemsAB) (Some False))) \<in> set (gitUrls (rawGit rawRepo))
           \<and> processFile Map.empty
                 (exDoc (exFile itemsAB None (Some True)) None
                    [entryRepo (createOnlyEntry (Some False))])
                 rawRepo (fileName (outFile (JObj itemsAB) (Some False)))
               = Inr (Some (outFile (JObj itemsAB) (Some False)))
           \<and> map_of (rawFiles (exDoc (exFile itemsAB None (Some True)) None
                                  [entryRepo (createOnlyEntry (Some False))]))
                (fileName (outFile (JObj itemsAB) (Some False))) = Some fileConfig
           \<and> repoOverride rawRepo (fileName (outFile (JObj itemsAB) (Some False))) \<noteq> Some Excluded
           \<and> createOnly (outFile (JObj itemsAB) (Some False)) =
               (case overrideOf rawRepo (fileName (outFile (JObj itemsAB) (Some False))) of
                  None \<Rightarrow> fileCreateOnly fileConfig
                | Some r \<Rightarrow>
                    (case overrideCreateOnly r of
                       Some b \<Rightarrow> Some b
                     | None \<Rightarrow> fileCreateOnly fileConfig)))
   \<and> normalizeConfig Map.empty
      (exDoc (exFile itemsAB None (Some True)) None [entryRepo (createOnlyEntry None)])
     = Inr \<lparr>repos = [outRepo (outFile (JObj itemsAB) (Some True))]\<rparr>"
proof -
  let ?doc = "exDoc (exFile itemsAB None (Some True)) None [entryRepo (createOnlyEntry (Some False))]"
  let ?f = "outFile (JObj itemsAB) (Some False)"
  have h1: "normalizeConfig Map.empty ?doc = Inr \<lparr>repos = [outRepo ?f]\<rparr>"
    by (simp add: ex_defs out_defs run_defs createOnlyEntry_def)
  have h2: "outRepo ?f \<in> set (repos \<lparr>repos = [outRepo ?f]\<rparr>)" by simp
  have h3: "?f \<in> set (files (outRepo ?f))" by (simp add: outRepo_def)
  have h4: "normalizeConfig Map.empty
      (exDoc (exFile itemsAB None (Some True)) None [entryRepo (createOnlyEntry None)])
     = Inr \<lparr>repos = [outRepo (outFile (JObj itemsAB) (Some True))]\<rparr>"
    by (simp add: ex_defs out_defs run_defs createOnlyEntry_def)
  from h1 h2 h3 createOnly_resolution [OF h1 h2 h3] h4 show ?thesis
    by (intro conjI)
qed

text \<open>
  The claim as stated fails when neither level specifies the flag: the output's
  \<^verbatim>\<open>createOnly\<close> is absent, not \<^verbatim>\<open>false\<close>.
\<close>

theorem createOnly_absent_counterexample:
  "normalizeConfig Map.empty (exDoc (exFile itemsAB None None) None [inheritRepo])
     = Inr \<lparr>repos = [outRepo (outFile (JObj itemsAB) None)]\<rparr>
   \<and> fileCreateOnly (exFile itemsAB None None) = None
   \<and> overrideOf inheritRepo ''config.json'' = None
   \<and> createOnly (outFile (JObj itemsAB) None) = None
   \<and> createOnly (outFile (JObj itemsAB) None) \<noteq> Some False"
  by (simp add: ex_defs out_defs run_defs overrideOf_def)

end
